theory Spec2Isabelle
  imports Main "HOL-Library.Word"
begin

section \<open>Python values used by \<open>backend/app.py\<close>\<close>

text \<open>
  A Python \<open>str\<close> is a sequence of Unicode code points, so it is modelled as a list of
  naturals (the messages of the program contain code points above the byte range, and
  \<open>str.strip\<close> looks at code points). \<open>bytes\<close> is a list of octets.
\<close>

type_synonym str = "nat list"
type_synonym bytes = "8 word list"

definition lit :: "string \<Rightarrow> str" where
  "lit s = map of_char s"

text \<open>Decimal rendering of integers, as \<open>str(n)\<close> and the \<open>{n}\<close> of an f-string give it.\<close>

fun dec :: "nat \<Rightarrow> str" where
  "dec n = (if n < 10 then [48 + n] else dec (n div 10) @ [48 + n mod 10])"

declare dec.simps [simp del]

definition str_int :: "int \<Rightarrow> str" where
  "str_int i = (if i < 0 then 45 # dec (nat (- i)) else dec (nat i))"

text \<open>\<open>"%0wd" % n\<close>: zero padding to at least \<open>w\<close> digits.\<close>

definition zpad :: "nat \<Rightarrow> nat \<Rightarrow> str" where
  "zpad w n = replicate (w - length (dec n)) 48 @ dec n"

text \<open>
  \<open>str.isspace\<close> on one code point and \<open>str.strip()\<close> without arguments: the
  white-space code points of CPython's Unicode database.
\<close>

definition isspace :: "nat \<Rightarrow> bool" where
  "isspace c \<longleftrightarrow>
     (0x09 \<le> c \<and> c \<le> 0x0D) \<or> (0x1C \<le> c \<and> c \<le> 0x20) \<or> c = 0x85 \<or> c = 0xA0 \<or>
     c = 0x1680 \<or> (0x2000 \<le> c \<and> c \<le> 0x200A) \<or> c = 0x2028 \<or> c = 0x2029 \<or>
     c = 0x202F \<or> c = 0x205F \<or> c = 0x3000"

definition strip :: "str \<Rightarrow> str" where
  "strip s = rev (dropWhile isspace (rev (dropWhile isspace s)))"

subsection \<open>Naive datetimes and \<open>datetime.isoformat()\<close>\<close>

record datetime =
  year :: nat
  month :: nat
  day :: nat
  hour :: nat
  minute :: nat
  second :: nat
  microsecond :: nat

definition is_leap :: "nat \<Rightarrow> bool" where
  "is_leap y \<longleftrightarrow> y mod 4 = 0 \<and> (y mod 100 \<noteq> 0 \<or> y mod 400 = 0)"

definition days_in_month :: "nat \<Rightarrow> nat \<Rightarrow> nat" where
  "days_in_month y m =
     (if m = 2 then (if is_leap y then 29 else 28)
      else if m = 4 \<or> m = 6 \<or> m = 9 \<or> m = 11 then 30 else 31)"

text \<open>The field ranges every \<open>datetime\<close> object satisfies (its constructor checks them).\<close>

definition valid_datetime :: "datetime \<Rightarrow> bool" where
  "valid_datetime t \<longleftrightarrow>
     1 \<le> year t \<and> year t \<le> 9999 \<and> 1 \<le> month t \<and> month t \<le> 12 \<and>
     1 \<le> day t \<and> day t \<le> days_in_month (year t) (month t) \<and>
     hour t < 24 \<and> minute t < 60 \<and> second t < 60 \<and> microsecond t < 1000000"

text \<open>
  \<open>isoformat()\<close> of a naive datetime: \<open>YYYY-MM-DDTHH:MM:SS\<close>, followed by
  \<open>.ffffff\<close> when the microsecond field is not zero.
\<close>

definition isoformat :: "datetime \<Rightarrow> str" where
  "isoformat t =
     zpad 4 (year t) @ lit ''-'' @ zpad 2 (month t) @ lit ''-'' @ zpad 2 (day t) @ lit ''T'' @
     zpad 2 (hour t) @ lit '':'' @ zpad 2 (minute t) @ lit '':'' @ zpad 2 (second t) @
     (if microsecond t \<noteq> 0 then lit ''.'' @ zpad 6 (microsecond t) else [])"

subsection \<open>Parsed JSON and exceptions\<close>

text \<open>
  What \<open>resp.json()\<close> returns: \<open>None\<close>, a bool, an int, a str, a list or a dict with
  string keys (numbers with a fraction are left out: no step of the program computes with
  them). Python's \<open>None\<close> and JSON's \<open>null\<close> are the same value \<open>JNull\<close>.
\<close>

datatype json =
    JNull
  | JBool bool
  | JInt int
  | JStr str
  | JArr "json list"
  | JObj "(str \<times> json) list"

text \<open>
  The exceptions (all subclasses of \<open>Exception\<close>) the program raises, catches by class, or
  can receive from a collaborator.
\<close>

datatype exn =
    HTTPException int str
  | CalledProcessError bytes
  | TimeoutExpired
  | OSError str
  | KeyError str
  | TypeError
  | ValidationError
  | OtherException str

text \<open>\<open>v[k]\<close> with a string key: only a dict can be subscripted so.\<close>

fun subscript :: "json \<Rightarrow> str \<Rightarrow> exn + json" where
  "subscript (JObj kvs) k = (case map_of kvs k of Some v \<Rightarrow> Inr v | None \<Rightarrow> Inl (KeyError k))"
| "subscript JNull k = Inl TypeError"
| "subscript (JBool b) k = Inl TypeError"
| "subscript (JInt i) k = Inl TypeError"
| "subscript (JStr s) k = Inl TypeError"
| "subscript (JArr xs) k = Inl TypeError"

text \<open>Truth value of a Python value, as \<open>if v:\<close> tests it.\<close>

fun truthy :: "json \<Rightarrow> bool" where
  "truthy JNull = False"
| "truthy (JBool b) = b"
| "truthy (JInt i) = (i \<noteq> 0)"
| "truthy (JStr s) = (s \<noteq> [])"
| "truthy (JArr xs) = (xs \<noteq> [])"
| "truthy (JObj kvs) = (kvs \<noteq> [])"

section \<open>The request and response models\<close>

record CreateFromOpenSCADRequest =
  openscad_code :: str
  document_name :: "str option"

record CreateFromOpenSCADResponse =
  success :: bool
  docId :: "str option"
  docName :: "str option"
  url :: "str option"
  message :: "str option"
  error :: "str option"

section \<open>The world outside the source file\<close>

datatype kwargs =
    JsonBody json
  | FilesBody "(str \<times> str \<times> bytes \<times> str) list"

record http_request =
  req_method :: str
  req_url :: str
  req_headers :: "(str \<times> str) list"
  req_kwargs :: kwargs

record http_response =
  status_code :: int
  resp_text :: str
  resp_json :: "exn + json"

text \<open>
  \<open>resp.ok\<close> of the HTTP library: false exactly when \<open>raise_for_status()\<close> would raise,
  which it does for a status from 400 to 599 and for no other.
\<close>

definition ok :: "http_response \<Rightarrow> bool" where
  "ok resp \<longleftrightarrow> \<not> (400 \<le> status_code resp \<and> status_code resp < 600)"

text \<open>The calls that leave the process, in the order they are made.\<close>

datatype effect =
    MkTemp str
  | WriteFile str bytes
  | RunProcess "str list" nat
  | ReadFile str
  | RemoveFile str
  | HttpCall http_request

text \<open>
  Everything the source takes from outside: the configuration read at import time, the
  clock, library functions whose result the program only passes on, and the answers of
  the collaborators (file system, the \<open>openscad\<close> process, the remote API). A collaborator
  answers with a value or with an exception; within one request no collaborator is asked
  the same thing twice, so its answers are a function of what it is asked.
  \<^item> \<open>str_exn\<close> is \<open>str(e)\<close>; \<open>encode_utf8\<close> is \<open>s.encode("utf-8")\<close>; \<open>decode_ignore\<close> is
    \<open>b.decode("utf-8", errors="ignore")\<close>;
  \<^item> \<open>str_value\<close> is \<open>str(v)\<close> of a parsed JSON value that is not a string;
  \<^item> \<open>coerce_str\<close> is what the response model's validation of an \<open>Optional[str]\<close> field
    does with a value that is neither \<open>None\<close> nor a string (it raises, or converts);
  \<^item> \<open>resp_json\<close> of a response is what \<open>resp.json()\<close> returns or raises.
\<close>

record env =
  ONSHAPE_API_URL :: str
  auth_header :: str
  utcnow :: datetime
  str_exn :: "exn \<Rightarrow> str"
  encode_utf8 :: "str \<Rightarrow> exn + bytes"
  decode_ignore :: "bytes \<Rightarrow> str"
  str_value :: "json \<Rightarrow> str"
  coerce_str :: "json \<Rightarrow> exn + str"
  mktemp :: "str \<Rightarrow> exn + str"
  write_result :: "str \<Rightarrow> bytes \<Rightarrow> exn option"
  run_result :: "str list \<Rightarrow> nat \<Rightarrow> exn option"
  read_result :: "str \<Rightarrow> exn + bytes"
  remove_result :: "str \<Rightarrow> exn option"
  http_result :: "http_request \<Rightarrow> exn + http_response"

text \<open>
  The state a request runs in: the local variable \<open>doc_id\<close> (the \<open>except\<close> handler reads
  it), the temporary files of this request that are on disk, and the calls made so far.
\<close>

record pstate =
  doc_id :: json
  files :: "str list"
  trace :: "effect list"

type_synonym 'a prog = "pstate \<Rightarrow> (exn + 'a) \<times> pstate"

definition returnE :: "'a \<Rightarrow> 'a prog" where
  "returnE x = (\<lambda>s. (Inr x, s))"

definition raiseE :: "exn \<Rightarrow> 'a prog" where
  "raiseE e = (\<lambda>s. (Inl e, s))"

definition liftE :: "exn + 'a \<Rightarrow> 'a prog" where
  "liftE r = (\<lambda>s. (r, s))"

definition bindE :: "'a prog \<Rightarrow> ('a \<Rightarrow> 'b prog) \<Rightarrow> 'b prog" where
  "bindE m f = (\<lambda>s. case m s of (Inl e, s') \<Rightarrow> (Inl e, s') | (Inr x, s') \<Rightarrow> f x s')"

text \<open>
  \<open>try: m except <class> as e: h e\<close>. The handler function answers \<open>None\<close> for an
  exception its \<open>except\<close> clause does not match, which then propagates.
\<close>

definition tryE :: "'a prog \<Rightarrow> (exn \<Rightarrow> 'a prog option) \<Rightarrow> 'a prog" where
  "tryE m h = (\<lambda>s. case m s of
       (Inl e, s') \<Rightarrow> (case h e of Some k \<Rightarrow> k s' | None \<Rightarrow> (Inl e, s'))
     | (Inr x, s') \<Rightarrow> (Inr x, s'))"

definition log :: "effect \<Rightarrow> pstate \<Rightarrow> pstate" where
  "log ef s = s\<lparr>trace := trace s @ [ef]\<rparr>"

definition outcome :: "exn option \<Rightarrow> exn + unit" where
  "outcome r = (case r of Some e \<Rightarrow> Inl e | None \<Rightarrow> Inr ())"

text \<open>\<open>tempfile.NamedTemporaryFile(suffix=..., delete=False)\<close>: the file stays on disk.\<close>

definition NamedTemporaryFile :: "env \<Rightarrow> str \<Rightarrow> str prog" where
  "NamedTemporaryFile E suffix = (\<lambda>s.
     case mktemp E suffix of
       Inl e \<Rightarrow> (Inl e, log (MkTemp suffix) s)
     | Inr path \<Rightarrow> (Inr path, (log (MkTemp suffix) s)\<lparr>files := List.insert path (files s)\<rparr>))"

definition file_write :: "env \<Rightarrow> str \<Rightarrow> bytes \<Rightarrow> unit prog" where
  "file_write E path data = (\<lambda>s. (outcome (write_result E path data), log (WriteFile path data) s))"

definition subprocess_run :: "env \<Rightarrow> str list \<Rightarrow> nat \<Rightarrow> unit prog" where
  "subprocess_run E argv timeout = (\<lambda>s. (outcome (run_result E argv timeout), log (RunProcess argv timeout) s))"

definition file_read :: "env \<Rightarrow> str \<Rightarrow> bytes prog" where
  "file_read E path = (\<lambda>s. (read_result E path, log (ReadFile path) s))"

definition os_remove :: "env \<Rightarrow> str \<Rightarrow> unit prog" where
  "os_remove E path = (\<lambda>s.
     case remove_result E path of
       Some e \<Rightarrow> (Inl e, log (RemoveFile path) s)
     | None \<Rightarrow> (Inr (), (log (RemoveFile path) s)\<lparr>files := removeAll path (files s)\<rparr>))"

definition requests_request :: "env \<Rightarrow> http_request \<Rightarrow> http_response prog" where
  "requests_request E rq = (\<lambda>s. (http_result E rq, log (HttpCall rq) s))"

section \<open>\<open>onshape_api_request\<close>\<close>

text \<open>
  Lines 46--49: the URL and the headers. No caller passes \<open>headers\<close>, so the two set
  here are all of them.
\<close>

definition build_request :: "env \<Rightarrow> str \<Rightarrow> str \<Rightarrow> kwargs \<Rightarrow> http_request" where
  "build_request E method path kw =
     \<lparr>req_method = method,
      req_url = ONSHAPE_API_URL E @ path,
      req_headers = [(lit ''Authorization'', auth_header E),
                     (lit ''Accept'', lit ''application/json'')],
      req_kwargs = kw\<rparr>"

definition onshape_api_request :: "env \<Rightarrow> str \<Rightarrow> str \<Rightarrow> kwargs \<Rightarrow> json prog" where
  "onshape_api_request E method path kw =
     bindE (requests_request E (build_request E method path kw))
       (\<lambda>resp.
          if \<not> ok resp then
            raiseE (HTTPException (status_code resp)
                      (lit ''Onshape API error '' @ str_int (status_code resp) @ lit '': '' @
                       resp_text resp))
          else if strip (resp_text resp) \<noteq> [] then liftE (resp_json resp)
          else returnE (JObj []))"

section \<open>The compiler stage (lines 77--107 of \<open>create_from_openscad\<close>)\<close>

text \<open>\<open>except subprocess.CalledProcessError as e: raise HTTPException(500, ...)\<close>\<close>

definition on_CalledProcessError :: "env \<Rightarrow> exn \<Rightarrow> unit prog option" where
  "on_CalledProcessError E e =
     (case e of
        CalledProcessError stderr \<Rightarrow>
          Some (raiseE (HTTPException 500 (lit ''OpenSCAD error: '' @ decode_ignore E stderr)))
      | _ \<Rightarrow> None)"

text \<open>\<open>except OSError: pass\<close>\<close>

definition on_OSError :: "exn \<Rightarrow> unit prog option" where
  "on_OSError e = (case e of OSError m \<Rightarrow> Some (returnE ()) | _ \<Rightarrow> None)"

definition compile_to_stl :: "env \<Rightarrow> str \<Rightarrow> bytes prog" where
  "compile_to_stl E code =
     bindE (NamedTemporaryFile E (lit ''.scad'')) (\<lambda>scad_path.
     bindE (liftE (encode_utf8 E code)) (\<lambda>data.
     bindE (file_write E scad_path data) (\<lambda>_.
     bindE (NamedTemporaryFile E (lit ''.stl'')) (\<lambda>stl_path.
     bindE (tryE (subprocess_run E [lit ''openscad'', lit ''-o'', stl_path, scad_path] 30)
                 (on_CalledProcessError E)) (\<lambda>_.
     bindE (file_read E stl_path) (\<lambda>stl_bytes.
     bindE (tryE (bindE (os_remove E scad_path) (\<lambda>_. os_remove E stl_path)) on_OSError) (\<lambda>_.
     returnE stl_bytes)))))))"

section \<open>The three calls to the remote API\<close>

text \<open>
  The calls of lines 110--114, 124--128 and 131--140, under the names the specification
  gives them.
\<close>

text \<open>\<open>{v}\<close> inside an f-string: a string stands for itself.\<close>

definition fmt :: "env \<Rightarrow> json \<Rightarrow> str" where
  "fmt E v = (case v of JStr s \<Rightarrow> s | _ \<Rightarrow> str_value E v)"

text \<open>
  \<open>file_name = "model.stl"\<close>; \<open>requests.utils.quote\<close> leaves it as it is, all its
  characters being unreserved.
\<close>

definition file_name :: str where
  "file_name = lit ''model.stl''"

definition createDocument :: "env \<Rightarrow> str \<Rightarrow> json prog" where
  "createDocument E doc_name =
     onshape_api_request E (lit ''POST'') (lit ''/documents'')
       (JsonBody (JObj [(lit ''name'', JStr doc_name), (lit ''public'', JBool False)]))"

definition uploadBlob :: "env \<Rightarrow> json \<Rightarrow> json \<Rightarrow> bytes \<Rightarrow> json prog" where
  "uploadBlob E did workspace_id stl_bytes =
     onshape_api_request E (lit ''POST'')
       (lit ''/blobelements/d/'' @ fmt E did @ lit ''/w/'' @ fmt E workspace_id @
        lit ''?encodedFilename='' @ file_name)
       (FilesBody [(lit ''file'', file_name, stl_bytes, lit ''application/octet-stream'')])"

definition importBlob :: "env \<Rightarrow> json \<Rightarrow> json \<Rightarrow> json \<Rightarrow> json prog" where
  "importBlob E did workspace_id blob_id =
     onshape_api_request E (lit ''POST'')
       (lit ''/partstudios/d/'' @ fmt E did @ lit ''/w/'' @ fmt E workspace_id @ lit ''/import'')
       (JsonBody (JObj [(lit ''format'', JStr (lit ''STL'')),
                        (lit ''blobElementId'', blob_id),
                        (lit ''importIntoPartStudio'', JBool True),
                        (lit ''createNewPartStudio'', JBool False)]))"

section \<open>The outcome records\<close>

definition document_url :: "env \<Rightarrow> json \<Rightarrow> str" where
  "document_url E did = lit ''https://cad.onshape.com/documents/'' @ fmt E did"

definition message_details :: "env \<Rightarrow> str \<Rightarrow> json \<Rightarrow> str" where
  "message_details E doc_name did =
     lit ''Document: '' @ doc_name @ [0x0A] @ lit ''ID: '' @ fmt E did @ [0x0A, 0x0A] @
     [0x1F517] @ lit '' View your model: '' @ document_url E did"

text \<open>The message of the \<open>return\<close> at the end of the \<open>try\<close> block starts with U+2705.\<close>

definition success_message :: "env \<Rightarrow> str \<Rightarrow> json \<Rightarrow> str" where
  "success_message E doc_name did =
     [0x2705] @ lit '' Successfully created 3D model in Onshape!'' @ [0x0A, 0x0A] @
     message_details E doc_name did"

text \<open>The message of the \<open>except\<close> handler has no such mark.\<close>

definition partial_message :: "env \<Rightarrow> str \<Rightarrow> json \<Rightarrow> str" where
  "partial_message E doc_name did =
     lit ''Successfully created 3D model in Onshape!'' @ [0x0A, 0x0A] @
     message_details E doc_name did"

text \<open>
  Validation of a value given for a field of type \<open>Optional[str]\<close>: \<open>None\<close> and strings
  pass unchanged.
\<close>

definition optional_str :: "env \<Rightarrow> json \<Rightarrow> exn + str option" where
  "optional_str E v =
     (case v of
        JNull \<Rightarrow> Inr None
      | JStr s \<Rightarrow> Inr (Some s)
      | _ \<Rightarrow> (case coerce_str E v of Inl e \<Rightarrow> Inl e | Inr s \<Rightarrow> Inr (Some s)))"

text \<open>
  The constructor call \<open>CreateFromOpenSCADResponse(success=..., docId=..., ...)\<close>. Of its
  arguments only \<open>docId\<close> can be something else than a string or \<open>None\<close>.
\<close>

definition make_response ::
  "env \<Rightarrow> bool \<Rightarrow> json \<Rightarrow> str option \<Rightarrow> str option \<Rightarrow> str option \<Rightarrow> str option \<Rightarrow>
   CreateFromOpenSCADResponse prog" where
  "make_response E sc did nm u msg err =
     (case optional_str E did of
        Inl x \<Rightarrow> raiseE x
      | Inr d \<Rightarrow> returnE \<lparr>success = sc, docId = d, docName = nm, url = u, message = msg,
                          error = err\<rparr>)"

section \<open>\<open>create_from_openscad\<close>\<close>

definition assign_doc_id :: "json \<Rightarrow> unit prog" where
  "assign_doc_id v = (\<lambda>s. (Inr (), s\<lparr>doc_id := v\<rparr>))"

text \<open>The \<open>try\<close> block after \<open>doc_id = doc["id"]\<close> (lines 116--154).\<close>

definition after_commit :: "env \<Rightarrow> str \<Rightarrow> bytes \<Rightarrow> json \<Rightarrow> json \<Rightarrow> CreateFromOpenSCADResponse prog" where
  "after_commit E doc_name stl_bytes doc did =
     bindE (liftE (case subscript doc (lit ''defaultWorkspace'') of
                     Inl e \<Rightarrow> Inl e
                   | Inr dw \<Rightarrow> subscript dw (lit ''id''))) (\<lambda>workspace_id.
     bindE (uploadBlob E did workspace_id stl_bytes) (\<lambda>blob.
     bindE (liftE (subscript blob (lit ''id''))) (\<lambda>blob_id.
     bindE (importBlob E did workspace_id blob_id) (\<lambda>_.
     make_response E True did (Some doc_name) (Some (document_url E did))
       (Some (success_message E doc_name did)) None))))"

text \<open>The whole \<open>try\<close> block (lines 76--154).\<close>

definition try_body :: "env \<Rightarrow> str \<Rightarrow> str \<Rightarrow> CreateFromOpenSCADResponse prog" where
  "try_body E code doc_name =
     bindE (compile_to_stl E code) (\<lambda>stl_bytes.
     bindE (createDocument E doc_name) (\<lambda>doc.
     bindE (liftE (subscript doc (lit ''id''))) (\<lambda>did.
     bindE (assign_doc_id did) (\<lambda>_.
     after_commit E doc_name stl_bytes doc did))))"

text \<open>\<open>except Exception as e:\<close> (lines 156--175).\<close>

definition except_handler :: "env \<Rightarrow> str \<Rightarrow> exn \<Rightarrow> CreateFromOpenSCADResponse prog" where
  "except_handler E doc_name e = (\<lambda>s.
     if truthy (doc_id s) then
       make_response E True (doc_id s) (Some doc_name) (Some (document_url E (doc_id s)))
         (Some (partial_message E doc_name (doc_id s))) None s
     else make_response E False JNull None None None (Some (str_exn E e)) s)"

definition default_doc_name :: "datetime \<Rightarrow> str" where
  "default_doc_name t = lit ''AI Model '' @ isoformat t"

text \<open>\<open>payload.document_name or f"AI Model {utcnow().isoformat()}"\<close>\<close>

definition doc_name_of :: "env \<Rightarrow> CreateFromOpenSCADRequest \<Rightarrow> str" where
  "doc_name_of E payload =
     (case document_name payload of
        None \<Rightarrow> default_doc_name (utcnow E)
      | Some n \<Rightarrow> if n = [] then default_doc_name (utcnow E) else n)"

definition create_from_openscad :: "env \<Rightarrow> CreateFromOpenSCADRequest \<Rightarrow> CreateFromOpenSCADResponse prog" where
  "create_from_openscad E payload =
     (let doc_name = doc_name_of E payload in
      if openscad_code payload = [] then
        raiseE (HTTPException 400 (lit ''openscad_code is required''))
      else
        bindE (assign_doc_id JNull) (\<lambda>_.
        tryE (try_body E (openscad_code payload) doc_name)
             (\<lambda>e. Some (except_handler E doc_name e))))"

section \<open>Vocabulary of the statements\<close>

text \<open>
  The answer of a collaborator depends on the environment only, so what a call returns
  or raises is the same in every state.
\<close>

definition returns :: "'a prog \<Rightarrow> 'a \<Rightarrow> bool" where
  "returns m x \<longleftrightarrow> (\<forall>s. fst (m s) = Inr x)"

definition raises :: "'a prog \<Rightarrow> exn \<Rightarrow> bool" where
  "raises m e \<longleftrightarrow> (\<forall>s. fst (m s) = Inl e)"

text \<open>The requests sent to the remote API among a list of calls.\<close>

fun http_calls :: "effect list \<Rightarrow> http_request list" where
  "http_calls [] = []"
| "http_calls (HttpCall rq # efs) = rq # http_calls efs"
| "http_calls (ef # efs) = http_calls efs"

text \<open>The calls one run of \<open>create_from_openscad\<close> adds to those made before.\<close>

definition issued :: "env \<Rightarrow> CreateFromOpenSCADRequest \<Rightarrow> pstate \<Rightarrow> effect list" where
  "issued E payload s = drop (length (trace s)) (trace (snd (create_from_openscad E payload s)))"

text \<open>A property of the state that a program keeps.\<close>

definition preserves :: "(pstate \<Rightarrow> bool) \<Rightarrow> 'a prog \<Rightarrow> bool" where
  "preserves I m \<longleftrightarrow> (\<forall>s. I s \<longrightarrow> I (snd (m s)))"

text \<open>
  Since the calls listed in \<open>before\<close>, every request sent to the remote API was a
  \<open>POST\<close>.
\<close>

definition posts_only :: "effect list \<Rightarrow> pstate \<Rightarrow> bool" where
  "posts_only before s \<longleftrightarrow>
     (\<exists>new. trace s = before @ new \<and>
            (\<forall>rq\<in>set (http_calls new). req_method rq = lit ''POST''))"

text \<open>\<open>None\<close> or a string: the values the declared type \<open>Optional[str]\<close> of \<open>docId\<close> allows.\<close>

definition plain_id :: "json \<Rightarrow> bool" where
  "plain_id v = (case v of JNull \<Rightarrow> True | JStr s \<Rightarrow> True | _ \<Rightarrow> False)"

section \<open>Concrete worlds\<close>

text \<open>
  A world for running the program on concrete inputs: temporary files are created,
  written and read without error, and the process and the three remote calls answer as
  the parameters say. The library functions are fixed to simple ones: \<open>str(e)\<close> keeps the
  detail of an \<open>HTTPException\<close>; the validation of a \<open>docId\<close> that is neither \<open>None\<close> nor
  a string raises; \<open>str(v)\<close> is right for \<open>None\<close>, booleans and integers (no run below
  renders a list or a dict).
\<close>

definition demo_str_value :: "json \<Rightarrow> str" where
  "demo_str_value v =
     (case v of
        JNull \<Rightarrow> lit ''None''
      | JBool b \<Rightarrow> (if b then lit ''True'' else lit ''False'')
      | JInt i \<Rightarrow> str_int i
      | _ \<Rightarrow> lit ''...'')"

definition http_ok :: "json \<Rightarrow> http_response" where
  "http_ok v = \<lparr>status_code = 200, resp_text = lit ''{...}'', resp_json = Inr v\<rparr>"

definition remote_document :: "json \<Rightarrow> json" where
  "remote_document did =
     JObj [(lit ''id'', did), (lit ''defaultWorkspace'', JObj [(lit ''id'', JStr (lit ''w1''))])]"

definition demo_str_exn :: "exn \<Rightarrow> str" where
  "demo_str_exn e =
     (case e of
        HTTPException c d \<Rightarrow> str_int c @ lit '': '' @ d
      | KeyError k \<Rightarrow> k
      | OSError m \<Rightarrow> m
      | OtherException m \<Rightarrow> m
      | TimeoutExpired \<Rightarrow> lit ''timed out''
      | _ \<Rightarrow> [])"

definition world ::
  "exn option \<Rightarrow> exn option \<Rightarrow> (exn + http_response) \<Rightarrow> (exn + http_response) \<Rightarrow>
   (exn + http_response) \<Rightarrow> env" where
  "world run_r rm_r create_r upload_r import_r =
     \<lparr>ONSHAPE_API_URL = lit ''https://cad.onshape.com/api/v12'',
      auth_header = lit ''Basic a2V5OnNlY3JldA=='',
      utcnow = \<lparr>year = 2025, month = 1, day = 2, hour = 3, minute = 4, second = 5,
                microsecond = 678\<rparr>,
      str_exn = demo_str_exn,
      encode_utf8 = (\<lambda>s. Inr (map of_nat s)),
      decode_ignore = map unat,
      str_value = demo_str_value,
      coerce_str = (\<lambda>v. Inl ValidationError),
      mktemp = (\<lambda>suffix. Inr (lit ''/tmp/tmpabc'' @ suffix)),
      write_result = (\<lambda>path data. None),
      run_result = (\<lambda>argv timeout. run_r),
      read_result = (\<lambda>path. Inr [0x73, 0x6F]),
      remove_result = (\<lambda>path. rm_r),
      http_result = (\<lambda>rq.
        case req_kwargs rq of
          FilesBody fs \<Rightarrow> upload_r
        | JsonBody b \<Rightarrow>
            if req_url rq = lit ''https://cad.onshape.com/api/v12/documents'' then create_r
            else import_r)\<rparr>"

definition fresh :: pstate where
  "fresh = \<lparr>doc_id = JNull, files = [], trace = []\<rparr>"

definition scad_tmp :: str where
  "scad_tmp = lit ''/tmp/tmpabc.scad''"

definition stl_tmp :: str where
  "stl_tmp = lit ''/tmp/tmpabc.stl''"

definition openscad_argv :: "str list" where
  "openscad_argv = [lit ''openscad'', lit ''-o'', stl_tmp, scad_tmp]"

definition cube :: CreateFromOpenSCADRequest where
  "cube = \<lparr>openscad_code = lit ''cube(1);'', document_name = Some (lit ''Cube'')\<rparr>"

text \<open>A request whose source is one space, and one with no source at all.\<close>

definition blank :: CreateFromOpenSCADRequest where
  "blank = \<lparr>openscad_code = [0x20], document_name = Some (lit ''Cube'')\<rparr>"

definition no_source :: CreateFromOpenSCADRequest where
  "no_source = \<lparr>openscad_code = [], document_name = Some (lit ''Cube'')\<rparr>"

text \<open>A request that leaves the name of the document to the program.\<close>

definition unnamed :: CreateFromOpenSCADRequest where
  "unnamed = \<lparr>openscad_code = lit ''cube(1);'', document_name = None\<rparr>"

definition cube_data :: bytes where
  "cube_data = [0x63, 0x75, 0x62, 0x65, 0x28, 0x31, 0x29, 0x3B]"

definition blob_reference :: json where
  "blob_reference = JObj [(lit ''id'', JStr (lit ''b1''))]"

text \<open>Everything works; the document created has the id \<open>d1\<close>.\<close>

definition world_ok :: env where
  "world_ok = world None None (Inr (http_ok (remote_document (JStr (lit ''d1'')))))
                (Inr (http_ok blob_reference)) (Inr (http_ok (JObj [])))"

text \<open>The same world one microsecond later.\<close>

definition world_later :: env where
  "world_later = world_ok\<lparr>utcnow := (utcnow world_ok)\<lparr>microsecond := 679\<rparr>\<rparr>"

text \<open>\<open>openscad\<close> exits with a non-zero status and \<open>e\<close> on its error stream.\<close>

definition world_compile_error :: env where
  "world_compile_error = world (Some (CalledProcessError [0x65])) None
                           (Inr (http_ok (remote_document (JStr (lit ''d1'')))))
                           (Inr (http_ok blob_reference)) (Inr (http_ok (JObj [])))"

text \<open>\<open>openscad\<close> is still running after 30 seconds.\<close>

definition world_timeout :: env where
  "world_timeout = world (Some TimeoutExpired) None
                     (Inr (http_ok (remote_document (JStr (lit ''d1'')))))
                     (Inr (http_ok blob_reference)) (Inr (http_ok (JObj [])))"

text \<open>The document \<open>d1\<close> is created, then the upload fails in transit.\<close>

definition world_upload_down :: env where
  "world_upload_down = world None None (Inr (http_ok (remote_document (JStr (lit ''d1'')))))
                         (Inl (OtherException (lit ''connection reset''))) (Inr (http_ok (JObj [])))"

text \<open>The same, but the remote API names the new document by the empty string.\<close>

definition world_empty_id :: env where
  "world_empty_id = world None None (Inr (http_ok (remote_document (JStr []))))
                      (Inl (OtherException (lit ''connection reset''))) (Inr (http_ok (JObj [])))"

text \<open>The same, but the \<open>id\<close> of the new document is the list \<open>["d1"]\<close>.\<close>

definition world_list_id :: env where
  "world_list_id = world None None (Inr (http_ok (remote_document (JArr [JStr (lit ''d1'')]))))
                     (Inl (OtherException (lit ''connection reset''))) (Inr (http_ok (JObj [])))"

text \<open>Everything works, but the \<open>id\<close> of the new document is the number 7.\<close>

definition world_int_id :: env where
  "world_int_id = world None None (Inr (http_ok (remote_document (JInt 7))))
                    (Inr (http_ok blob_reference)) (Inr (http_ok (JObj [])))"

text \<open>Everything works, but the document comes back with \<open>"id": null\<close>.\<close>

definition world_null_id :: env where
  "world_null_id = world None None (Inr (http_ok (remote_document JNull)))
                     (Inr (http_ok blob_reference)) (Inr (http_ok (JObj [])))"

text \<open>The remote API answers 404 to the first call, with the body \<open>no\<close>.\<close>

definition not_found :: http_response where
  "not_found = \<lparr>status_code = 404, resp_text = lit ''no'',
                 resp_json = Inl (OtherException (lit ''JSONDecodeError''))\<rparr>"

definition world_404 :: env where
  "world_404 = world None None (Inr not_found) (Inr not_found) (Inr not_found)"

text \<open>The remote API answers 200 with a body of one space and one line feed.\<close>

definition blank_ok :: http_response where
  "blank_ok = \<lparr>status_code = 200, resp_text = [0x20, 0x0A],
                resp_json = Inl (OtherException (lit ''JSONDecodeError''))\<rparr>"

definition world_blank :: env where
  "world_blank = world None None (Inr blank_ok) (Inr blank_ok) (Inr blank_ok)"

text \<open>The remote API answers 304 (not modified), which has no body.\<close>

definition not_modified :: http_response where
  "not_modified = \<lparr>status_code = 304, resp_text = [],
                    resp_json = Inl (OtherException (lit ''JSONDecodeError''))\<rparr>"

definition world_304 :: env where
  "world_304 = world None None (Inr not_modified) (Inr not_modified) (Inr not_modified)"

section \<open>Running programs\<close>

lemma bindE_returnE [simp]: "bindE (returnE x) f = f x"
  by (simp add: bindE_def returnE_def)

lemma bindE_raiseE [simp]: "bindE (raiseE e) f = raiseE e"
  by (simp add: bindE_def raiseE_def)

lemma liftE_Inr [simp]: "liftE (Inr x) = returnE x"
  by (simp add: liftE_def returnE_def)

lemma liftE_Inl [simp]: "liftE (Inl e) = raiseE e"
  by (simp add: liftE_def raiseE_def)

lemma returnE_apply [simp]: "returnE x s = (Inr x, s)"
  by (simp add: returnE_def)

lemma raiseE_apply [simp]: "raiseE e s = (Inl e, s)"
  by (simp add: raiseE_def)

lemma assign_doc_id_apply [simp]: "assign_doc_id v s = (Inr (), s\<lparr>doc_id := v\<rparr>)"
  by (simp add: assign_doc_id_def)

lemma bindE_assign_doc_id [simp]: "bindE (assign_doc_id v) f s = f () (s\<lparr>doc_id := v\<rparr>)"
  by (simp add: bindE_def)

lemma bindE_Inr: "m s = (Inr x, s') \<Longrightarrow> bindE m f s = f x s'"
  by (simp add: bindE_def)

lemma bindE_Inl: "m s = (Inl e, s') \<Longrightarrow> bindE m f s = (Inl e, s')"
  by (simp add: bindE_def)

lemma returns_bindE: "returns m x \<Longrightarrow> bindE m f s = f x (snd (m s))"
  unfolding returns_def by (rule bindE_Inr) (metis prod.collapse)

lemma raises_bindE: "raises m e \<Longrightarrow> bindE m f s = (Inl e, snd (m s))"
  unfolding raises_def by (rule bindE_Inl) (metis prod.collapse)

lemma bindE_InrE:
  assumes "bindE m f s = (Inr r, t)"
  obtains x s1 where "m s = (Inr x, s1)" and "f x s1 = (Inr r, t)"
proof (cases "m s")
  case (Pair a s1)
  with assms show ?thesis
    by (cases a) (auto simp add: bindE_def intro: that)
qed

lemma tryE_fst_Inr: "fst (m s) = Inr x \<Longrightarrow> fst (tryE m h s) = Inr x"
  by (cases "m s") (simp add: tryE_def)

lemma tryE_handled: "fst (m s) = Inl e \<Longrightarrow> tryE m (\<lambda>e. Some (h e)) s = h e (snd (m s))"
  by (cases "m s") (simp add: tryE_def)

lemma create_from_openscad_nonempty:
  "openscad_code p \<noteq> [] \<Longrightarrow>
     create_from_openscad E p s =
       tryE (try_body E (openscad_code p) (doc_name_of E p))
            (\<lambda>e. Some (except_handler E (doc_name_of E p) e)) (s\<lparr>doc_id := JNull\<rparr>)"
  by (simp add: create_from_openscad_def Let_def)

lemmas prim_defs = NamedTemporaryFile_def file_write_def subprocess_run_def file_read_def
  os_remove_def requests_request_def outcome_def log_def

lemmas run_defs = compile_to_stl_def createDocument_def uploadBlob_def importBlob_def
  onshape_api_request_def build_request_def prim_defs bindE_def tryE_def liftE_def
  on_CalledProcessError_def on_OSError_def fmt_def file_name_def strip_def isspace_def ok_def

lemmas pipeline_defs = create_from_openscad_def try_body_def after_commit_def
  except_handler_def make_response_def optional_str_def document_url_def doc_name_of_def
  assign_doc_id_def issued_def Let_def

lemmas world_defs = world_def world_ok_def world_later_def world_compile_error_def
  world_timeout_def world_upload_down_def world_empty_id_def world_list_id_def
  world_int_id_def world_null_id_def world_404_def world_blank_def world_304_def

lemmas demo_defs = fresh_def scad_tmp_def stl_tmp_def openscad_argv_def cube_def blank_def
  no_source_def unnamed_def cube_data_def blob_reference_def http_ok_def remote_document_def
  not_found_def blank_ok_def not_modified_def demo_str_exn_def demo_str_value_def

subsection \<open>Properties of the state kept by every step\<close>

lemma preserves_returnE: "preserves I (returnE x)"
  by (simp add: preserves_def)

lemma preserves_raiseE: "preserves I (raiseE e)"
  by (simp add: preserves_def)

lemma preserves_liftE: "preserves I (liftE r)"
  by (simp add: preserves_def liftE_def)

lemma preserves_bindE:
  assumes "preserves I m" and "\<And>x. preserves I (f x)"
  shows "preserves I (bindE m f)"
  unfolding preserves_def
proof (intro allI impI)
  fix s assume "I s"
  then have 1: "I (snd (m s))" using assms(1) by (simp add: preserves_def)
  show "I (snd (bindE m f s))"
  proof (cases "m s")
    case (Pair r s')
    then show ?thesis
      using 1 assms(2) by (cases r) (simp_all add: bindE_def preserves_def)
  qed
qed

lemma preserves_tryE:
  assumes "preserves I m" and "\<And>e k. h e = Some k \<Longrightarrow> preserves I k"
  shows "preserves I (tryE m h)"
  unfolding preserves_def
proof (intro allI impI)
  fix s assume "I s"
  then have 1: "I (snd (m s))" using assms(1) by (simp add: preserves_def)
  show "I (snd (tryE m h s))"
  proof (cases "m s")
    case (Pair r s')
    show ?thesis
    proof (cases r)
      case (Inl e)
      then show ?thesis
        using 1 Pair assms(2) [of e] by (cases "h e") (simp_all add: tryE_def preserves_def)
    next
      case (Inr x)
      then show ?thesis using 1 Pair by (simp add: tryE_def)
    qed
  qed
qed

lemma preserves_if:
  "(c \<Longrightarrow> preserves I a) \<Longrightarrow> (\<not> c \<Longrightarrow> preserves I b) \<Longrightarrow> preserves I (if c then a else b)"
  by simp

lemma preserves_on_CalledProcessError: "on_CalledProcessError E e = Some k \<Longrightarrow> preserves I k"
  by (auto simp add: on_CalledProcessError_def preserves_raiseE split: exn.splits)

lemma preserves_on_OSError: "on_OSError e = Some k \<Longrightarrow> preserves I k"
  by (auto simp add: on_OSError_def preserves_returnE split: exn.splits)

lemma preserves_make_response: "preserves I (make_response E sc did nm u msg err)"
  by (auto simp add: make_response_def preserves_returnE preserves_raiseE split: sum.splits)

lemma preserves_except_handler: "preserves I (except_handler E doc_name e)"
  by (auto simp add: preserves_def except_handler_def make_response_def split: sum.splits)

lemma preserves_create_from_openscad:
  assumes "\<And>code doc_name. preserves I (try_body E code doc_name)"
    and "\<And>v. preserves I (assign_doc_id v)"
  shows "preserves I (create_from_openscad E p)"
  unfolding create_from_openscad_def Let_def
  by (intro preserves_if preserves_raiseE preserves_bindE preserves_tryE assms)
    (auto intro: preserves_except_handler)

text \<open>No call to a collaborator assigns the local variable \<open>doc_id\<close>.\<close>

lemma doc_id_requests_request: "preserves (\<lambda>s. doc_id s = v) (requests_request E rq)"
  by (simp add: preserves_def prim_defs)

lemma doc_id_onshape_api_request:
  "preserves (\<lambda>s. doc_id s = v) (onshape_api_request E method path kw)"
  unfolding onshape_api_request_def
  by (intro preserves_bindE preserves_if preserves_raiseE preserves_liftE preserves_returnE
      doc_id_requests_request)

lemma doc_id_after_commit:
  "preserves (\<lambda>s. doc_id s = v) (after_commit E doc_name stl_bytes doc did)"
  unfolding after_commit_def uploadBlob_def importBlob_def
  by (intro preserves_bindE preserves_liftE preserves_make_response doc_id_onshape_api_request)

lemma after_commit_doc_id [simp]:
  "doc_id (snd (after_commit E doc_name stl_bytes doc did s)) = doc_id s"
  using doc_id_after_commit [of "doc_id s" E doc_name stl_bytes doc did]
  by (simp add: preserves_def)

subsection \<open>What a returned record looks like\<close>

lemma make_response_Inr:
  assumes "make_response E sc did nm u msg err s = (Inr r, t)"
  shows "optional_str E did = Inr (docId r) \<and> success r = sc \<and> docName r = nm \<and> url r = u \<and>
         message r = msg \<and> error r = err \<and> t = s"
  using assms by (cases "optional_str E did") (auto simp add: make_response_def)

lemma optional_str_populated: "optional_str E v = Inr d \<Longrightarrow> v \<noteq> JNull \<Longrightarrow> d \<noteq> None"
  by (cases v) (auto simp add: optional_str_def split: sum.splits)

lemma optional_str_plain: "plain_id v \<Longrightarrow> \<exists>d. optional_str E v = Inr d"
  by (cases v) (simp_all add: optional_str_def plain_id_def)

lemma truthy_not_null: "truthy v \<Longrightarrow> v \<noteq> JNull"
  by auto

lemma after_commit_Inr:
  assumes "after_commit E n stl doc did s = (Inr r, t)"
  shows "optional_str E did = Inr (docId r) \<and> success r \<and> docName r = Some n \<and>
         url r = Some (document_url E did) \<and> message r = Some (success_message E n did) \<and>
         error r = None"
proof -
  from assms obtain wid s1 blob s2 bid s3 x s4
    where "make_response E True did (Some n) (Some (document_url E did))
             (Some (success_message E n did)) None s4 = (Inr r, t)"
    unfolding after_commit_def by (elim bindE_InrE)
  then show ?thesis by (auto dest: make_response_Inr)
qed

lemma try_body_Inr:
  assumes "try_body E code n s = (Inr r, t)"
  shows "optional_str E (doc_id t) = Inr (docId r) \<and> success r \<and> docName r = Some n \<and>
         url r = Some (document_url E (doc_id t)) \<and>
         message r = Some (success_message E n (doc_id t)) \<and> error r = None"
proof -
  from assms obtain stl s1 doc s2 did s3 u s4
    where a: "assign_doc_id did s3 = (Inr u, s4)"
      and b: "after_commit E n stl doc did s4 = (Inr r, t)"
    unfolding try_body_def by (elim bindE_InrE)
  from a have "doc_id s4 = did" by auto
  moreover have "doc_id t = doc_id s4"
    using after_commit_doc_id [of E n stl doc did s4] b by simp
  ultimately show ?thesis using after_commit_Inr [OF b] by simp
qed

lemma except_handler_Inr:
  assumes "except_handler E n e s = (Inr r, t)"
  shows "t = s \<and>
         (if truthy (doc_id s)
          then optional_str E (doc_id s) = Inr (docId r) \<and> success r \<and> docName r = Some n \<and>
               url r = Some (document_url E (doc_id s)) \<and>
               message r = Some (partial_message E n (doc_id s)) \<and> error r = None
          else \<not> success r \<and> docId r = None \<and> docName r = None \<and> url r = None \<and>
               message r = None \<and> error r = Some (str_exn E e))"
  using assms
  by (auto simp add: except_handler_def optional_str_def dest!: make_response_Inr split: if_splits)

lemma except_handler_partial:
  assumes "doc_id s = JStr did" and "did \<noteq> []"
  shows "except_handler E doc_name e s =
           (Inr \<lparr>success = True, docId = Some did, docName = Some doc_name,
                 url = Some (lit ''https://cad.onshape.com/documents/'' @ did),
                 message = Some (partial_message E doc_name (JStr did)),
                 error = None\<rparr>, s)"
  using assms
  by (simp add: except_handler_def make_response_def optional_str_def document_url_def fmt_def)

lemma outcome_shape:
  assumes "create_from_openscad E p s = (Inr r, t)"
  shows "(success r \<longrightarrow> docName r \<noteq> None \<and> url r \<noteq> None \<and> message r \<noteq> None \<and> error r = None \<and>
            (doc_id t \<noteq> JNull \<longrightarrow> docId r \<noteq> None)) \<and>
         (\<not> success r \<longrightarrow> error r \<noteq> None \<and> docId r = None \<and> docName r = None \<and> url r = None \<and>
            message r = None)"
proof -
  let ?n = "doc_name_of E p"
  let ?s0 = "s\<lparr>doc_id := JNull\<rparr>"
  have ne: "openscad_code p \<noteq> []"
    using assms by (auto simp add: create_from_openscad_def)
  then have c: "tryE (try_body E (openscad_code p) ?n) (\<lambda>e. Some (except_handler E ?n e)) ?s0 =
                  (Inr r, t)"
    using assms by (simp add: create_from_openscad_nonempty)
  obtain res s1 where tb: "try_body E (openscad_code p) ?n ?s0 = (res, s1)"
    by (cases "try_body E (openscad_code p) ?n ?s0")
  show ?thesis
  proof (cases res)
    case (Inr r')
    with tb c have "try_body E (openscad_code p) ?n ?s0 = (Inr r, t)"
      by (simp add: tryE_def)
    from try_body_Inr [OF this] show ?thesis
      by (auto dest: optional_str_populated)
  next
    case (Inl e)
    with tb c have h: "except_handler E ?n e s1 = (Inr r, t)"
      by (simp add: tryE_def)
    from except_handler_Inr [OF h] show ?thesis
      by (auto dest: optional_str_populated truthy_not_null split: if_splits)
  qed
qed

section \<open>C7: the failure policy of \<open>onshape_api_request\<close>\<close>

lemma strip_empty_iff: "strip s = [] \<longleftrightarrow> (\<forall>c\<in>set s. isspace c)"
proof -
  have "strip s = [] \<longleftrightarrow> (\<forall>c\<in>set (dropWhile isspace s). isspace c)"
    by (simp add: strip_def dropWhile_eq_Nil_conv)
  also have "\<dots> \<longleftrightarrow> dropWhile isspace s = []"
  proof
    assume a: "\<forall>c\<in>set (dropWhile isspace s). isspace c"
    show "dropWhile isspace s = []"
    proof (rule ccontr)
      assume n: "dropWhile isspace s \<noteq> []"
      then have "\<not> isspace (hd (dropWhile isspace s))" by (rule hd_dropWhile)
      moreover have "hd (dropWhile isspace s) \<in> set (dropWhile isspace s)" using n by simp
      ultimately show False using a by blast
    qed
  next
    assume "dropWhile isspace s = []"
    then show "\<forall>c\<in>set (dropWhile isspace s). isspace c"
      by (simp del: dropWhile_eq_Nil_conv)
  qed
  also have "\<dots> \<longleftrightarrow> (\<forall>c\<in>set s. isspace c)"
    by (simp add: dropWhile_eq_Nil_conv)
  finally show ?thesis .
qed

text \<open>
  Claim C7, as the code has it. Let the remote API answer a call of \<open>onshape_api_request\<close>
  with the response \<open>resp\<close>. If its status is from 400 to 599, the call raises an
  \<open>HTTPException\<close> that carries the status code of the response, and whose detail ends
  with the body text of the response. If its status is any other (the 2xx, and the 1xx
  and 3xx too) and the body is empty or made of white space only, the call returns the
  empty dict, and the body is not parsed.
\<close>

theorem onshape_api_request_policy:
  assumes "http_result E (build_request E method path kw) = Inr resp"
  shows "(400 \<le> status_code resp \<and> status_code resp < 600 \<longrightarrow>
            fst (onshape_api_request E method path kw s) =
              Inl (HTTPException (status_code resp)
                     (lit ''Onshape API error '' @ str_int (status_code resp) @ lit '': '' @
                      resp_text resp))) \<and>
         (\<not> (400 \<le> status_code resp \<and> status_code resp < 600) \<and>
          (\<forall>c\<in>set (resp_text resp). isspace c) \<longrightarrow>
            fst (onshape_api_request E method path kw s) = Inr (JObj []))"
  using assms
  by (simp add: onshape_api_request_def requests_request_def bindE_def strip_empty_iff ok_def)

text \<open>
  A 404 with the body \<open>no\<close> is raised as \<open>HTTPException(404, "Onshape API error 404: no")\<close>;
  a 200 whose body is a space and a line feed gives \<open>{}\<close>, though \<open>resp.json()\<close> would
  raise on it.
\<close>

theorem onshape_api_request_policy_witness:
  "fst (onshape_api_request world_404 (lit ''POST'') (lit ''/documents'') (JsonBody JNull) fresh) =
     Inl (HTTPException 404 (lit ''Onshape API error 404: no'')) \<and>
   fst (onshape_api_request world_blank (lit ''POST'') (lit ''/documents'') (JsonBody JNull) fresh) =
     Inr (JObj [])"
proof -
  have h1: "http_result world_404
              (build_request world_404 (lit ''POST'') (lit ''/documents'') (JsonBody JNull)) =
            Inr not_found"
    by (simp add: world_defs build_request_def lit_def)
  have h2: "http_result world_blank
              (build_request world_blank (lit ''POST'') (lit ''/documents'') (JsonBody JNull)) =
            Inr blank_ok"
    by (simp add: world_defs build_request_def lit_def)
  have a: "400 \<le> status_code not_found \<and> status_code not_found < 600"
    by (simp add: not_found_def)
  have b: "\<not> (400 \<le> status_code blank_ok \<and> status_code blank_ok < 600) \<and>
           (\<forall>c\<in>set (resp_text blank_ok). isspace c)"
    by (simp add: blank_ok_def isspace_def)
  have c: "str_int 404 = lit ''404''" by (simp add: str_int_def dec.simps lit_def)
  from onshape_api_request_policy [OF h1, of fresh] a
  have 1: "fst (onshape_api_request world_404 (lit ''POST'') (lit ''/documents'') (JsonBody JNull)
                  fresh) =
           Inl (HTTPException 404 (lit ''Onshape API error '' @ lit ''404'' @ lit '': '' @ lit ''no''))"
    by (simp add: not_found_def c)
  from onshape_api_request_policy [OF h2, of fresh] b
  have 2: "fst (onshape_api_request world_blank (lit ''POST'') (lit ''/documents'') (JsonBody JNull)
                  fresh) = Inr (JObj [])"
    by blast
  from 1 2 show ?thesis by (simp add: lit_def)
qed

text \<open>
  The claim as stated, with a status that is not a success standing for a status outside
  the 2xx, fails for a response that ends with the status 304: \<open>resp.ok\<close> is true for it,
  nothing is raised, and the call returns the empty dict as for a success.
\<close>

theorem not_modified_counterexample:
  "status_code not_modified = 304 \<and>
   http_result world_304
     (build_request world_304 (lit ''POST'') (lit ''/documents'') (JsonBody JNull)) =
     Inr not_modified \<and>
   fst (onshape_api_request world_304 (lit ''POST'') (lit ''/documents'') (JsonBody JNull) fresh) =
     Inr (JObj [])"
  by (simp add: run_defs world_defs demo_defs lit_def)

section \<open>C3: validation of the source\<close>

text \<open>
  Claim C3, as the code has it. A request whose \<open>openscad_code\<close> is the empty string is
  rejected by raising \<open>HTTPException(400, "openscad_code is required")\<close>, and the state
  is left as it was: no temporary file, no process, no remote call. (The exception leaves
  \<open>create_from_openscad\<close>; no outcome record is built. A source of white space only is not
  empty and is not rejected here.)
\<close>

theorem empty_source_rejected:
  assumes "openscad_code p = []"
  shows "create_from_openscad E p s =
           (Inl (HTTPException 400 (lit ''openscad_code is required'')), s) \<and>
         issued E p s = []"
  using assms by (simp add: create_from_openscad_def issued_def)

theorem empty_source_rejected_witness:
  "openscad_code no_source = [] \<and>
   create_from_openscad world_ok no_source fresh =
     (Inl (HTTPException 400 (lit ''openscad_code is required'')), fresh) \<and>
   issued world_ok no_source fresh = []"
proof -
  have h: "openscad_code no_source = []" by (simp add: no_source_def)
  from h empty_source_rejected [OF h, of world_ok fresh] show ?thesis by blast
qed

text \<open>
  The claim as stated fails for a source of one space: it passes the test
  \<open>if not openscad_code\<close>, the compiler is run on it, the three remote calls are made, and
  the outcome is a success.
\<close>

theorem blank_source_counterexample:
  "strip (openscad_code blank) = [] \<and>
   fst (create_from_openscad world_ok blank fresh) =
     Inr \<lparr>success = True, docId = Some (lit ''d1''), docName = Some (lit ''Cube''),
          url = Some (lit ''https://cad.onshape.com/documents/d1''),
          message = Some (success_message world_ok (lit ''Cube'') (JStr (lit ''d1''))),
          error = None\<rparr> \<and>
   RunProcess openscad_argv 30 \<in> set (issued world_ok blank fresh) \<and>
   length (http_calls (issued world_ok blank fresh)) = 3"
proof -
  have 1: "strip (openscad_code blank) = []"
    by (simp add: blank_def strip_def isspace_def)
  have 2: "fst (create_from_openscad world_ok blank fresh) =
     Inr \<lparr>success = True, docId = Some (lit ''d1''), docName = Some (lit ''Cube''),
          url = Some (lit ''https://cad.onshape.com/documents/d1''),
          message = Some (success_message world_ok (lit ''Cube'') (JStr (lit ''d1''))),
          error = None\<rparr>"
    by (simp add: pipeline_defs run_defs world_defs demo_defs lit_def)
  have 3: "issued world_ok blank fresh ! 3 = RunProcess openscad_argv 30"
    by (simp add: pipeline_defs run_defs world_defs demo_defs lit_def)
  have 4: "length (issued world_ok blank fresh) = 10"
    by (simp add: pipeline_defs run_defs world_defs demo_defs lit_def)
  have "3 < length (issued world_ok blank fresh)"
    using 4 by simp
  then have "issued world_ok blank fresh ! 3 \<in> set (issued world_ok blank fresh)"
    by (rule nth_mem)
  then have 5: "RunProcess openscad_argv 30 \<in> set (issued world_ok blank fresh)"
    using 3 by simp
  have 6: "length (http_calls (issued world_ok blank fresh)) = 3"
    by (simp add: pipeline_defs run_defs world_defs demo_defs lit_def)
  from 1 2 5 6 show ?thesis by blast
qed

section \<open>C5: a failure of the compiler\<close>

text \<open>
  Claim C5. Take a request with a source, for which the two temporary files are created
  and the source is written, so that \<open>openscad\<close> is started. If the process exits with a
  non-zero status (\<open>CalledProcessError\<close>) or runs into the bound of 30 seconds
  (\<open>TimeoutExpired\<close>), then \<open>create_from_openscad\<close> returns the failure record whose
  \<open>error\<close> is the text of the exception: of \<open>HTTPException(500, "OpenSCAD error: " + stderr)\<close>
  in the first case, of the timeout in the second. The calls made are the creation of the
  two files, the write and the process, and none of them goes to the remote API.
\<close>

theorem compiler_failure_is_failure:
  assumes "openscad_code p \<noteq> []"
    and "mktemp E (lit ''.scad'') = Inr scad_path"
    and "encode_utf8 E (openscad_code p) = Inr data"
    and "write_result E scad_path data = None"
    and "mktemp E (lit ''.stl'') = Inr stl_path"
    and "run_result E [lit ''openscad'', lit ''-o'', stl_path, scad_path] 30 = Some x"
    and "x = CalledProcessError stderr \<or> x = TimeoutExpired"
  shows "fst (create_from_openscad E p s) =
           Inr \<lparr>success = False, docId = None, docName = None, url = None, message = None,
                error = Some (str_exn E
                  (if x = TimeoutExpired then TimeoutExpired
                   else HTTPException 500 (lit ''OpenSCAD error: '' @ decode_ignore E stderr)))\<rparr> \<and>
         issued E p s =
           [MkTemp (lit ''.scad''), WriteFile scad_path data, MkTemp (lit ''.stl''),
            RunProcess [lit ''openscad'', lit ''-o'', stl_path, scad_path] 30] \<and>
         http_calls (issued E p s) = []"
  using assms
  by (auto simp add: issued_def create_from_openscad_def try_body_def compile_to_stl_def prim_defs
      tryE_def bindE_def on_CalledProcessError_def except_handler_def make_response_def
      optional_str_def)

text \<open>
  \<open>openscad\<close> exits with a non-zero status and \<open>e\<close> on its error stream: the outcome is
  the failure \<open>500: OpenSCAD error: e\<close>, after four calls. \<open>openscad\<close> runs into the
  timeout: the outcome is the failure with the text of the timeout.
\<close>

theorem compiler_failure_is_failure_witness:
  "fst (create_from_openscad world_compile_error cube fresh) =
     Inr \<lparr>success = False, docId = None, docName = None, url = None, message = None,
          error = Some (lit ''500: OpenSCAD error: e'')\<rparr> \<and>
   issued world_compile_error cube fresh =
     [MkTemp (lit ''.scad''), WriteFile scad_tmp cube_data, MkTemp (lit ''.stl''),
      RunProcess openscad_argv 30] \<and>
   http_calls (issued world_compile_error cube fresh) = [] \<and>
   fst (create_from_openscad world_timeout cube fresh) =
     Inr \<lparr>success = False, docId = None, docName = None, url = None, message = None,
          error = Some (lit ''timed out'')\<rparr> \<and>
   http_calls (issued world_timeout cube fresh) = []"
proof -
  have t2: "mktemp world_timeout (lit ''.scad'') = Inr scad_tmp"
    by (simp add: world_defs demo_defs lit_def)
  have t3: "encode_utf8 world_timeout (openscad_code cube) = Inr cube_data"
    by (simp add: world_defs demo_defs lit_def)
  have t4: "write_result world_timeout scad_tmp cube_data = None"
    by (simp add: world_defs)
  have t5: "mktemp world_timeout (lit ''.stl'') = Inr stl_tmp"
    by (simp add: world_defs demo_defs lit_def)
  have t6: "run_result world_timeout [lit ''openscad'', lit ''-o'', stl_tmp, scad_tmp] 30 =
              Some TimeoutExpired"
    by (simp add: world_defs)
  have t7: "TimeoutExpired = CalledProcessError [] \<or> TimeoutExpired = TimeoutExpired"
    by simp
  have tc: "str_exn world_timeout TimeoutExpired = lit ''timed out''"
    by (simp add: world_defs demo_str_exn_def)
  have h1: "openscad_code cube \<noteq> []" by (simp add: cube_def lit_def)
  have h2: "mktemp world_compile_error (lit ''.scad'') = Inr scad_tmp"
    by (simp add: world_defs demo_defs lit_def)
  have h3: "encode_utf8 world_compile_error (openscad_code cube) = Inr cube_data"
    by (simp add: world_defs demo_defs lit_def)
  have h4: "write_result world_compile_error scad_tmp cube_data = None"
    by (simp add: world_defs)
  have h5: "mktemp world_compile_error (lit ''.stl'') = Inr stl_tmp"
    by (simp add: world_defs demo_defs lit_def)
  have h6: "run_result world_compile_error [lit ''openscad'', lit ''-o'', stl_tmp, scad_tmp] 30 =
              Some (CalledProcessError [0x65])"
    by (simp add: world_defs)
  have h7: "CalledProcessError [0x65] = CalledProcessError [0x65] \<or>
            CalledProcessError [0x65] = TimeoutExpired"
    by simp
  have c: "str_exn world_compile_error
             (HTTPException 500
                (lit ''OpenSCAD error: '' @ decode_ignore world_compile_error [0x65])) =
           lit ''500: OpenSCAD error: e''"
    by (simp add: world_defs demo_str_exn_def str_int_def dec.simps lit_def)
  from compiler_failure_is_failure [OF h1 h2 h3 h4 h5 h6 h7, of fresh]
    compiler_failure_is_failure [OF h1 t2 t3 t4 t5 t6 t7, of fresh]
  show ?thesis
    by (simp add: c tc openscad_argv_def)
qed

section \<open>C4: the temporary files\<close>

text \<open>
  Claim C4 at the input where the compiler fails. The two \<open>os.remove\<close> calls stand after
  the read of the mesh, inside the \<open>try\<close> block and not in a \<open>finally\<close>; when \<open>openscad\<close>
  fails, control goes to the \<open>except\<close> handler, no removal is attempted, and both
  temporary files are on disk when the pipeline has returned its failure record. On the
  path where everything works the same two files are removed.
\<close>

theorem temp_files_left_after_compile_error:
  "fst (create_from_openscad world_compile_error cube fresh) =
     Inr \<lparr>success = False, docId = None, docName = None, url = None, message = None,
          error = Some (lit ''500: OpenSCAD error: e'')\<rparr> \<and>
   files (snd (create_from_openscad world_compile_error cube fresh)) = [stl_tmp, scad_tmp] \<and>
   RemoveFile scad_tmp \<notin> set (issued world_compile_error cube fresh) \<and>
   RemoveFile stl_tmp \<notin> set (issued world_compile_error cube fresh) \<and>
   files (snd (create_from_openscad world_ok cube fresh)) = []"
proof -
  have 1: "fst (create_from_openscad world_compile_error cube fresh) =
     Inr \<lparr>success = False, docId = None, docName = None, url = None, message = None,
          error = Some (lit ''500: OpenSCAD error: e'')\<rparr>"
    by (simp add: pipeline_defs run_defs world_defs demo_defs lit_def str_int_def dec.simps)
  have 2: "files (snd (create_from_openscad world_compile_error cube fresh)) = [stl_tmp, scad_tmp]"
    by (simp add: pipeline_defs run_defs world_defs demo_defs lit_def)
  have 3: "issued world_compile_error cube fresh =
     [MkTemp (lit ''.scad''), WriteFile scad_tmp cube_data, MkTemp (lit ''.stl''),
      RunProcess openscad_argv 30]"
    by (simp add: pipeline_defs run_defs world_defs demo_defs lit_def)
  have 4: "files (snd (create_from_openscad world_ok cube fresh)) = []"
    by (simp add: pipeline_defs run_defs world_defs demo_defs lit_def)
  from 1 2 4 show ?thesis unfolding 3 by simp
qed

section \<open>C2: the full success\<close>

text \<open>
  Claim C2, as the code has it. Take a request with a source. If the compiler stage
  returns the mesh, the call that creates the document returns a dict whose \<open>id\<close> is a
  string \<open>did\<close> and whose \<open>defaultWorkspace\<close> has an \<open>id\<close>, the upload returns a dict
  with an \<open>id\<close>, and the import returns, then \<open>create_from_openscad\<close> returns the record
  with \<open>success = True\<close>, \<open>docId = did\<close>, the name of the document, the URL
  \<open>https://cad.onshape.com\<close> followed by \<open>/documents/\<close> and \<open>did\<close>, no error, and the
  confirmation message: the check mark U+2705, the sentence
  \<open>Successfully created 3D model in Onshape!\<close>, and the name, the id and the URL of the
  document on lines of their own.
\<close>

theorem full_success:
  assumes "openscad_code p \<noteq> []"
    and "returns (compile_to_stl E (openscad_code p)) stl_bytes"
    and "returns (createDocument E (doc_name_of E p)) doc"
    and "subscript doc (lit ''id'') = Inr (JStr did)"
    and "subscript doc (lit ''defaultWorkspace'') = Inr dw"
    and "subscript dw (lit ''id'') = Inr workspace_id"
    and "returns (uploadBlob E (JStr did) workspace_id stl_bytes) blob"
    and "subscript blob (lit ''id'') = Inr blob_id"
    and "returns (importBlob E (JStr did) workspace_id blob_id) r"
  shows "fst (create_from_openscad E p s) =
           Inr \<lparr>success = True, docId = Some did, docName = Some (doc_name_of E p),
                url = Some (lit ''https://cad.onshape.com'' @ lit ''/documents/'' @ did),
                message = Some ([0x2705] @ lit '' Successfully created 3D model in Onshape!'' @
                                [0x0A, 0x0A] @ lit ''Document: '' @ doc_name_of E p @ [0x0A] @
                                lit ''ID: '' @ did @ [0x0A, 0x0A] @ [0x1F517] @
                                lit '' View your model: '' @
                                lit ''https://cad.onshape.com/documents/'' @ did),
                error = None\<rparr>"
proof -
  let ?n = "doc_name_of E p"
  let ?r = "\<lparr>success = True, docId = Some did, docName = Some ?n,
             url = Some (lit ''https://cad.onshape.com'' @ lit ''/documents/'' @ did),
             message = Some ([0x2705] @ lit '' Successfully created 3D model in Onshape!'' @
                             [0x0A, 0x0A] @ lit ''Document: '' @ ?n @ [0x0A] @
                             lit ''ID: '' @ did @ [0x0A, 0x0A] @ [0x1F517] @
                             lit '' View your model: '' @
                             lit ''https://cad.onshape.com/documents/'' @ did),
             error = None\<rparr>"
  have ac: "fst (after_commit E ?n stl_bytes doc (JStr did) t) = Inr ?r" for t
    using assms(5,6,8)
    by (simp add: after_commit_def returns_bindE [OF assms(7)] returns_bindE [OF assms(9)]
        make_response_def optional_str_def document_url_def fmt_def success_message_def
        message_details_def lit_def)
  have "fst (try_body E (openscad_code p) ?n (s\<lparr>doc_id := JNull\<rparr>)) = Inr ?r"
    using assms(4)
    by (simp add: try_body_def returns_bindE [OF assms(2)] returns_bindE [OF assms(3)] ac)
  then show ?thesis
    using assms(1) by (simp add: create_from_openscad_nonempty tryE_fst_Inr)
qed

text \<open>The world where everything works, on the request for a cube.\<close>

theorem full_success_witness:
  "fst (create_from_openscad world_ok cube fresh) =
     Inr \<lparr>success = True, docId = Some (lit ''d1''), docName = Some (lit ''Cube''),
          url = Some (lit ''https://cad.onshape.com/documents/d1''),
          message = Some ([0x2705] @ lit '' Successfully created 3D model in Onshape!'' @
                          [0x0A, 0x0A] @ lit ''Document: Cube'' @ [0x0A] @ lit ''ID: d1'' @
                          [0x0A, 0x0A] @ [0x1F517] @
                          lit '' View your model: https://cad.onshape.com/documents/d1''),
          error = None\<rparr>"
proof -
  have n: "doc_name_of world_ok cube = lit ''Cube''"
    by (simp add: doc_name_of_def cube_def lit_def)
  have h1: "openscad_code cube \<noteq> []" by (simp add: cube_def lit_def)
  have h2: "returns (compile_to_stl world_ok (openscad_code cube)) [0x73, 0x6F]"
    by (simp add: returns_def run_defs world_defs)
  have h3: "returns (createDocument world_ok (doc_name_of world_ok cube))
              (remote_document (JStr (lit ''d1'')))"
    by (simp add: returns_def run_defs world_defs http_ok_def lit_def)
  have h4: "subscript (remote_document (JStr (lit ''d1''))) (lit ''id'') = Inr (JStr (lit ''d1''))"
    by (simp add: remote_document_def lit_def)
  have h5: "subscript (remote_document (JStr (lit ''d1''))) (lit ''defaultWorkspace'') =
              Inr (JObj [(lit ''id'', JStr (lit ''w1''))])"
    by (simp add: remote_document_def lit_def)
  have h6: "subscript (JObj [(lit ''id'', JStr (lit ''w1''))]) (lit ''id'') = Inr (JStr (lit ''w1''))"
    by simp
  have h7: "returns (uploadBlob world_ok (JStr (lit ''d1'')) (JStr (lit ''w1'')) [0x73, 0x6F])
              blob_reference"
    by (simp add: returns_def run_defs world_defs http_ok_def lit_def)
  have h8: "subscript blob_reference (lit ''id'') = Inr (JStr (lit ''b1''))"
    by (simp add: blob_reference_def)
  have h9: "returns (importBlob world_ok (JStr (lit ''d1'')) (JStr (lit ''w1'')) (JStr (lit ''b1'')))
              (JObj [])"
    by (simp add: returns_def run_defs world_defs http_ok_def lit_def)
  from full_success [OF h1 h2 h3 h4 h5 h6 h7 h8 h9, of fresh] show ?thesis
    by (simp add: n lit_def)
qed

text \<open>
  The claim as stated, for whatever id the creation returns, fails when that id is the
  number 7: the compiler stage and the three remote calls return, but the response model
  takes no number for \<open>docId\<close>, so the \<open>return\<close> of the \<open>try\<close> block raises, the \<open>except\<close>
  handler builds the same record and raises again, and no record is returned.
\<close>

theorem integer_id_counterexample:
  "returns (compile_to_stl world_int_id (openscad_code cube)) [0x73, 0x6F] \<and>
   returns (createDocument world_int_id (lit ''Cube'')) (remote_document (JInt 7)) \<and>
   returns (uploadBlob world_int_id (JInt 7) (JStr (lit ''w1'')) [0x73, 0x6F]) blob_reference \<and>
   returns (importBlob world_int_id (JInt 7) (JStr (lit ''w1'')) (JStr (lit ''b1''))) (JObj []) \<and>
   fst (create_from_openscad world_int_id cube fresh) = Inl ValidationError"
proof -
  have 1: "returns (compile_to_stl world_int_id (openscad_code cube)) [0x73, 0x6F]"
    by (simp add: returns_def run_defs world_defs)
  have 2: "returns (createDocument world_int_id (lit ''Cube'')) (remote_document (JInt 7))"
    by (simp add: returns_def run_defs world_defs http_ok_def lit_def)
  have 3: "returns (uploadBlob world_int_id (JInt 7) (JStr (lit ''w1'')) [0x73, 0x6F])
             blob_reference"
    by (simp add: returns_def run_defs world_defs http_ok_def lit_def)
  have 4: "returns (importBlob world_int_id (JInt 7) (JStr (lit ''w1'')) (JStr (lit ''b1'')))
             (JObj [])"
    by (simp add: returns_def run_defs world_defs http_ok_def lit_def)
  have 5: "fst (create_from_openscad world_int_id cube fresh) = Inl ValidationError"
    by (simp add: pipeline_defs run_defs world_defs demo_defs lit_def)
  from 1 2 3 4 5 show ?thesis by blast
qed

section \<open>C1: a failure after the document was created\<close>

text \<open>
  What the \<open>except\<close> handler does when the id captured is a string that is not empty,
  and the upload or the import raises: the record has \<open>success = True\<close>, the id, the
  name and the URL of the document, and the message of the handler (the same sentence
  and lines as on success, without the check mark).
\<close>

lemma nonempty_id_is_reported:
  assumes "openscad_code p \<noteq> []"
    and "returns (compile_to_stl E (openscad_code p)) stl_bytes"
    and "returns (createDocument E (doc_name_of E p)) doc"
    and "subscript doc (lit ''id'') = Inr (JStr did)"
    and "did \<noteq> []"
    and "subscript doc (lit ''defaultWorkspace'') = Inr dw"
    and "subscript dw (lit ''id'') = Inr workspace_id"
    and "raises (uploadBlob E (JStr did) workspace_id stl_bytes) e \<or>
         (returns (uploadBlob E (JStr did) workspace_id stl_bytes) blob \<and>
          subscript blob (lit ''id'') = Inr blob_id \<and>
          raises (importBlob E (JStr did) workspace_id blob_id) e)"
  shows "fst (create_from_openscad E p s) =
           Inr \<lparr>success = True, docId = Some did, docName = Some (doc_name_of E p),
                url = Some (lit ''https://cad.onshape.com/documents/'' @ did),
                message = Some (lit ''Successfully created 3D model in Onshape!'' @
                                [0x0A, 0x0A] @ lit ''Document: '' @ doc_name_of E p @ [0x0A] @
                                lit ''ID: '' @ did @ [0x0A, 0x0A] @ [0x1F517] @
                                lit '' View your model: '' @
                                lit ''https://cad.onshape.com/documents/'' @ did),
                error = None\<rparr>"
proof -
  let ?n = "doc_name_of E p"
  let ?t = "(snd (createDocument E ?n (snd (compile_to_stl E (openscad_code p)
                 (s\<lparr>doc_id := JNull\<rparr>)))))\<lparr>doc_id := JStr did\<rparr>"
  have ac: "fst (after_commit E ?n stl_bytes doc (JStr did) t) = Inl e" for t
    using assms(8)
  proof
    assume "raises (uploadBlob E (JStr did) workspace_id stl_bytes) e"
    then show ?thesis
      using assms(6,7) by (simp add: after_commit_def raises_bindE)
  next
    assume a: "returns (uploadBlob E (JStr did) workspace_id stl_bytes) blob \<and>
          subscript blob (lit ''id'') = Inr blob_id \<and>
          raises (importBlob E (JStr did) workspace_id blob_id) e"
    then have 1: "returns (uploadBlob E (JStr did) workspace_id stl_bytes) blob"
      and 2: "subscript blob (lit ''id'') = Inr blob_id"
      and 3: "raises (importBlob E (JStr did) workspace_id blob_id) e" by simp_all
    show ?thesis
      using assms(6,7) 2 by (simp add: after_commit_def returns_bindE [OF 1] raises_bindE [OF 3])
  qed
  have tb: "try_body E (openscad_code p) ?n (s\<lparr>doc_id := JNull\<rparr>) =
              after_commit E ?n stl_bytes doc (JStr did) ?t"
    using assms(4)
    by (simp add: try_body_def returns_bindE [OF assms(2)] returns_bindE [OF assms(3)])
  have "doc_id (snd (after_commit E ?n stl_bytes doc (JStr did) ?t)) = JStr did"
    by simp
  then show ?thesis
    using assms(1,5) ac [of ?t]
    by (simp add: create_from_openscad_nonempty tb tryE_handled except_handler_partial
        partial_message_def message_details_def document_url_def fmt_def lit_def)
qed

text \<open>
  Claim C1 at the input where the remote API names the new document by the empty
  string. The comment of the \<open>except\<close> handler says that a document created before the
  failure is reported as a partial success, but the handler tests \<open>if doc_id:\<close>, which an
  empty id fails as \<open>None\<close> does: the document is created, \<open>doc_id\<close> holds its id, the
  upload raises, and the outcome is a failure that does not mention the document. With
  the id \<open>d1\<close> and the same failure of the upload, the outcome is the partial success.
\<close>

theorem empty_document_id_is_failure:
  "returns (createDocument world_empty_id (lit ''Cube'')) (remote_document (JStr [])) \<and>
   raises (uploadBlob world_empty_id (JStr []) (JStr (lit ''w1'')) [0x73, 0x6F])
     (OtherException (lit ''connection reset'')) \<and>
   doc_id (snd (create_from_openscad world_empty_id cube fresh)) = JStr [] \<and>
   fst (create_from_openscad world_empty_id cube fresh) =
     Inr \<lparr>success = False, docId = None, docName = None, url = None, message = None,
          error = Some (lit ''connection reset'')\<rparr> \<and>
   fst (create_from_openscad world_upload_down cube fresh) =
     Inr \<lparr>success = True, docId = Some (lit ''d1''), docName = Some (lit ''Cube''),
          url = Some (lit ''https://cad.onshape.com/documents/d1''),
          message = Some (lit ''Successfully created 3D model in Onshape!'' @
                          [0x0A, 0x0A] @ lit ''Document: Cube'' @ [0x0A] @ lit ''ID: d1'' @
                          [0x0A, 0x0A] @ [0x1F517] @
                          lit '' View your model: https://cad.onshape.com/documents/d1''),
          error = None\<rparr>"
proof -
  have 1: "returns (createDocument world_empty_id (lit ''Cube'')) (remote_document (JStr []))"
    by (simp add: returns_def run_defs world_defs http_ok_def lit_def)
  have 2: "raises (uploadBlob world_empty_id (JStr []) (JStr (lit ''w1'')) [0x73, 0x6F])
             (OtherException (lit ''connection reset''))"
    by (simp add: raises_def run_defs world_defs)
  have 3: "doc_id (snd (create_from_openscad world_empty_id cube fresh)) = JStr []"
    by (simp add: pipeline_defs run_defs world_defs demo_defs lit_def)
  have 4: "fst (create_from_openscad world_empty_id cube fresh) =
     Inr \<lparr>success = False, docId = None, docName = None, url = None, message = None,
          error = Some (lit ''connection reset'')\<rparr>"
    by (simp add: pipeline_defs run_defs world_defs demo_defs lit_def)
  have 5: "fst (create_from_openscad world_upload_down cube fresh) =
     Inr \<lparr>success = True, docId = Some (lit ''d1''), docName = Some (lit ''Cube''),
          url = Some (lit ''https://cad.onshape.com/documents/d1''),
          message = Some (lit ''Successfully created 3D model in Onshape!'' @
                          [0x0A, 0x0A] @ lit ''Document: Cube'' @ [0x0A] @ lit ''ID: d1'' @
                          [0x0A, 0x0A] @ [0x1F517] @
                          lit '' View your model: https://cad.onshape.com/documents/d1''),
          error = None\<rparr>"
    by (simp add: pipeline_defs run_defs world_defs demo_defs partial_message_def
        message_details_def lit_def)
  from 1 2 3 4 5 show ?thesis by blast
qed

section \<open>C8: the default name of the document\<close>

text \<open>Reading a zero-padded decimal back gives the number, so the padding loses nothing.\<close>

lemma foldl_dec: "foldl (\<lambda>a c. 10 * a + (c - 48)) 0 (dec n) = n"
proof (induction n rule: dec.induct)
  case (1 n)
  show ?case
  proof (cases "n < 10")
    case True
    then show ?thesis by (simp add: dec.simps [of n])
  next
    case False
    with 1 show ?thesis by (simp add: dec.simps [of n])
  qed
qed

lemma foldl_zeros: "foldl (\<lambda>a c. 10 * a + (c - 48)) 0 (replicate k 48) = (0::nat)"
  by (induction k) simp_all

lemma foldl_zpad: "foldl (\<lambda>a c. 10 * a + (c - 48)) 0 (zpad w n) = n"
  by (simp add: zpad_def foldl_zeros foldl_dec)

lemma zpad_inject: "zpad w m = zpad w n \<Longrightarrow> m = n"
  by (metis foldl_zpad)

lemma length_dec: "0 < w \<Longrightarrow> n < 10 ^ w \<Longrightarrow> length (dec n) \<le> w"
proof (induction n arbitrary: w rule: dec.induct)
  case (1 n)
  show ?case
  proof (cases "n < 10")
    case True
    then show ?thesis using 1(2) by (simp add: dec.simps [of n])
  next
    case False
    then have "1 < w" using 1(2,3)
      by (metis One_nat_def Suc_lessI power_one_right)
    moreover have "n div 10 < 10 ^ (w - 1)"
      using 1(3) \<open>1 < w\<close>
      by (metis One_nat_def Suc_pred' less_mult_imp_div_less mult.commute power_Suc
          zero_less_one_class.zero_less_one less_trans)
    ultimately have "length (dec (n div 10)) \<le> w - 1"
      using 1(1) [of "w - 1"] False by simp
    then show ?thesis using False \<open>1 < w\<close> by (simp add: dec.simps [of n])
  qed
qed

lemma length_zpad: "0 < w \<Longrightarrow> n < 10 ^ w \<Longrightarrow> length (zpad w n) = w"
  using length_dec [of w n] by (simp add: zpad_def)

lemma isoformat_inject:
  assumes "valid_datetime a" and "valid_datetime b" and "isoformat a = isoformat b"
  shows "a = b"
proof -
  have la: "length (zpad 4 (year a)) = 4" "length (zpad 2 (month a)) = 2"
    "length (zpad 2 (day a)) = 2" "length (zpad 2 (hour a)) = 2"
    "length (zpad 2 (minute a)) = 2" "length (zpad 2 (second a)) = 2"
    using assms(1)
    by (auto simp add: valid_datetime_def days_in_month_def intro!: length_zpad split: if_splits)
  have lb: "length (zpad 4 (year b)) = 4" "length (zpad 2 (month b)) = 2"
    "length (zpad 2 (day b)) = 2" "length (zpad 2 (hour b)) = 2"
    "length (zpad 2 (minute b)) = 2" "length (zpad 2 (second b)) = 2"
    using assms(2)
    by (auto simp add: valid_datetime_def days_in_month_def intro!: length_zpad split: if_splits)
  from assms(3) have
    "zpad 4 (year a) = zpad 4 (year b) \<and> zpad 2 (month a) = zpad 2 (month b) \<and>
     zpad 2 (day a) = zpad 2 (day b) \<and> zpad 2 (hour a) = zpad 2 (hour b) \<and>
     zpad 2 (minute a) = zpad 2 (minute b) \<and> zpad 2 (second a) = zpad 2 (second b) \<and>
     (if microsecond a \<noteq> 0 then lit ''.'' @ zpad 6 (microsecond a) else []) =
     (if microsecond b \<noteq> 0 then lit ''.'' @ zpad 6 (microsecond b) else [])"
    unfolding isoformat_def using la lb by (simp add: lit_def)
  then have "year a = year b" "month a = month b" "day a = day b" "hour a = hour b"
    "minute a = minute b" "second a = second b" "microsecond a = microsecond b"
    by (auto simp add: lit_def dest: zpad_inject split: if_splits)
  then show ?thesis by simp
qed

text \<open>
  Claim C8. For a request without \<open>document_name\<close>, the name of the document is
  \<open>AI Model\<close>, a space, and the ISO form of the value \<open>utcnow()\<close> returned; and two such
  requests for which \<open>utcnow()\<close> returned different values get different names. (The
  values of \<open>utcnow()\<close> are datetimes, with the microsecond as their finest field.)
\<close>

theorem default_name_unique:
  assumes "document_name p1 = None" and "document_name p2 = None"
    and "valid_datetime (utcnow E1)" and "valid_datetime (utcnow E2)"
  shows "doc_name_of E1 p1 = lit ''AI Model '' @ isoformat (utcnow E1) \<and>
         (utcnow E1 \<noteq> utcnow E2 \<longrightarrow> doc_name_of E1 p1 \<noteq> doc_name_of E2 p2)"
  using assms
  by (auto simp add: doc_name_of_def default_doc_name_def dest: isoformat_inject)

text \<open>Two requests one microsecond apart.\<close>

theorem default_name_unique_witness:
  "doc_name_of world_ok unnamed = lit ''AI Model 2025-01-02T03:04:05.000678'' \<and>
   doc_name_of world_later unnamed = lit ''AI Model 2025-01-02T03:04:05.000679'' \<and>
   doc_name_of world_ok unnamed \<noteq> doc_name_of world_later unnamed"
proof -
  have h1: "document_name unnamed = None" by (simp add: unnamed_def)
  have h3: "valid_datetime (utcnow world_ok)"
    by (simp add: world_defs valid_datetime_def days_in_month_def)
  have h4: "valid_datetime (utcnow world_later)"
    by (simp add: world_defs valid_datetime_def days_in_month_def)
  have ne: "utcnow world_ok \<noteq> utcnow world_later"
    by (simp add: world_defs)
  have i1: "isoformat (utcnow world_ok) = lit ''2025-01-02T03:04:05.000678''"
    by code_simp
  have i2: "isoformat (utcnow world_later) = lit ''2025-01-02T03:04:05.000679''"
    by code_simp
  from default_name_unique [OF h1 h1 h3 h4] ne
  have a: "doc_name_of world_ok unnamed = lit ''AI Model '' @ isoformat (utcnow world_ok)"
    and b: "doc_name_of world_ok unnamed \<noteq> doc_name_of world_later unnamed"
    by blast+
  from default_name_unique [OF h1 h1 h4 h3]
  have c: "doc_name_of world_later unnamed = lit ''AI Model '' @ isoformat (utcnow world_later)"
    by blast
  from a b c show ?thesis by (simp add: i1 i2 lit_def)
qed

section \<open>C9: no request deletes a document\<close>

lemma http_calls_append: "http_calls (xs @ ys) = http_calls xs @ http_calls ys"
  by (induction xs rule: http_calls.induct) simp_all

lemma posts_only_log:
  assumes "posts_only before s" and "\<And>rq. ef = HttpCall rq \<Longrightarrow> req_method rq = lit ''POST''"
  shows "posts_only before (log ef s)"
proof -
  from assms(1) obtain new where n: "trace s = before @ new"
    "\<forall>rq\<in>set (http_calls new). req_method rq = lit ''POST''"
    by (auto simp add: posts_only_def)
  have "\<forall>rq\<in>set (http_calls (new @ [ef])). req_method rq = lit ''POST''"
    using n(2) assms(2) by (cases ef) (auto simp add: http_calls_append)
  moreover have "trace (log ef s) = before @ (new @ [ef])"
    using n(1) by (simp add: log_def)
  ultimately show ?thesis unfolding posts_only_def by blast
qed

lemma posts_only_files [simp]: "posts_only before (s\<lparr>files := fs\<rparr>) = posts_only before s"
  by (simp add: posts_only_def)

lemma posts_only_doc_id [simp]: "posts_only before (s\<lparr>doc_id := v\<rparr>) = posts_only before s"
  by (simp add: posts_only_def)

lemma posts_NamedTemporaryFile: "preserves (posts_only b) (NamedTemporaryFile E sfx)"
  by (auto simp add: preserves_def NamedTemporaryFile_def intro: posts_only_log split: sum.splits)

lemma posts_file_write: "preserves (posts_only b) (file_write E path data)"
  by (auto simp add: preserves_def file_write_def intro: posts_only_log)

lemma posts_subprocess_run: "preserves (posts_only b) (subprocess_run E argv tmo)"
  by (auto simp add: preserves_def subprocess_run_def intro: posts_only_log)

lemma posts_file_read: "preserves (posts_only b) (file_read E path)"
  by (auto simp add: preserves_def file_read_def intro: posts_only_log)

lemma posts_os_remove: "preserves (posts_only b) (os_remove E path)"
  by (auto simp add: preserves_def os_remove_def intro: posts_only_log split: option.splits)

lemma posts_onshape_api_request:
  "preserves (posts_only b) (onshape_api_request E (lit ''POST'') path kw)"
proof -
  have "preserves (posts_only b) (requests_request E (build_request E (lit ''POST'') path kw))"
    by (auto simp add: preserves_def requests_request_def build_request_def intro: posts_only_log)
  then show ?thesis
    unfolding onshape_api_request_def
    by (intro preserves_bindE preserves_if preserves_raiseE preserves_liftE preserves_returnE)
qed

lemma posts_compile_to_stl: "preserves (posts_only b) (compile_to_stl E code)"
  unfolding compile_to_stl_def
  by (intro preserves_bindE preserves_tryE preserves_liftE preserves_returnE
      posts_NamedTemporaryFile posts_file_write posts_subprocess_run posts_file_read
      posts_os_remove)
    (erule preserves_on_CalledProcessError preserves_on_OSError)+

lemma posts_assign_doc_id: "preserves (posts_only b) (assign_doc_id v)"
  by (simp add: preserves_def)

lemma posts_try_body: "preserves (posts_only b) (try_body E code doc_name)"
  unfolding try_body_def after_commit_def createDocument_def uploadBlob_def importBlob_def
  by (intro preserves_bindE preserves_liftE preserves_make_response posts_compile_to_stl
      posts_onshape_api_request posts_assign_doc_id)

lemma post_is_not_delete: "lit ''POST'' \<noteq> lit ''DELETE''"
  by (simp add: lit_def)

text \<open>
  Claim C9. Whatever the request and whatever the collaborators answer, every request
  that one run of \<open>create_from_openscad\<close> sends to the remote API, the \<open>except\<close> handler
  included, has the method \<open>POST\<close>; none has the method \<open>DELETE\<close>, so no document is
  deleted.
\<close>

theorem only_posts_are_issued:
  "\<forall>rq\<in>set (http_calls (issued E p s)).
     req_method rq = lit ''POST'' \<and> req_method rq \<noteq> lit ''DELETE''"
proof -
  have "posts_only (trace s) s" by (simp add: posts_only_def)
  moreover have "preserves (posts_only (trace s)) (create_from_openscad E p)"
    by (rule preserves_create_from_openscad [OF posts_try_body posts_assign_doc_id])
  ultimately have "posts_only (trace s) (snd (create_from_openscad E p s))"
    by (simp add: preserves_def)
  then show ?thesis by (auto simp add: posts_only_def issued_def post_is_not_delete)
qed

text \<open>The run where the document is created and the upload breaks sends two requests.\<close>

theorem only_posts_are_issued_witness:
  "length (http_calls (issued world_upload_down cube fresh)) = 2 \<and>
   list_all (\<lambda>rq. req_method rq = lit ''POST'' \<and> req_method rq \<noteq> lit ''DELETE'')
     (http_calls (issued world_upload_down cube fresh))"
proof -
  have 1: "length (http_calls (issued world_upload_down cube fresh)) = 2"
    by (simp add: pipeline_defs run_defs world_defs demo_defs lit_def)
  from only_posts_are_issued [of world_upload_down cube fresh]
  have 2: "list_all (\<lambda>rq. req_method rq = lit ''POST'' \<and> req_method rq \<noteq> lit ''DELETE'')
     (http_calls (issued world_upload_down cube fresh))"
    unfolding list_all_iff .
  from 1 2 show ?thesis by blast
qed

section \<open>C6: which failures come back as a record\<close>

text \<open>
  Claim C6, as the code has it. For a request with a source, \<open>create_from_openscad\<close>
  returns a record whatever fails inside the \<open>try\<close> block (the temporary files, the
  compiler, its timeout, the remote API, the shape of its answers), provided the value
  of \<open>doc_id\<close> at the end is \<open>None\<close> or a string, which is what the type of \<open>docId\<close>
  admits. (A request without source is not covered: its rejection is raised, not
  returned.)
\<close>

theorem failures_become_outcomes:
  assumes "openscad_code p \<noteq> []"
    and "plain_id (doc_id (snd (create_from_openscad E p s)))"
  shows "\<exists>r. fst (create_from_openscad E p s) = Inr r"
proof -
  let ?n = "doc_name_of E p"
  let ?s0 = "s\<lparr>doc_id := JNull\<rparr>"
  have c: "create_from_openscad E p s =
             tryE (try_body E (openscad_code p) ?n) (\<lambda>e. Some (except_handler E ?n e)) ?s0"
    using assms(1) by (rule create_from_openscad_nonempty)
  obtain res s1 where tb: "try_body E (openscad_code p) ?n ?s0 = (res, s1)"
    by (cases "try_body E (openscad_code p) ?n ?s0")
  show ?thesis
  proof (cases res)
    case (Inr r)
    with tb c show ?thesis by (simp add: tryE_def)
  next
    case (Inl e)
    with tb c have h: "create_from_openscad E p s = except_handler E ?n e s1"
      by (simp add: tryE_def)
    have "snd (except_handler E ?n e s1) = s1"
      by (auto simp add: except_handler_def make_response_def split: sum.splits)
    with h assms(2) have "plain_id (doc_id s1)" by simp
    then obtain d where "optional_str E (doc_id s1) = Inr d"
      using optional_str_plain by blast
    then show ?thesis
      unfolding h by (simp add: except_handler_def make_response_def optional_str_def)
  qed
qed

text \<open>A failure of the compiler, and a failure of the upload after the document exists.\<close>

theorem failures_become_outcomes_witness:
  "openscad_code cube \<noteq> [] \<and>
   plain_id (doc_id (snd (create_from_openscad world_compile_error cube fresh))) \<and>
   (\<exists>r. fst (create_from_openscad world_compile_error cube fresh) = Inr r) \<and>
   plain_id (doc_id (snd (create_from_openscad world_upload_down cube fresh))) \<and>
   (\<exists>r. fst (create_from_openscad world_upload_down cube fresh) = Inr r)"
proof -
  have h1: "openscad_code cube \<noteq> []" by (simp add: cube_def lit_def)
  have h2: "plain_id (doc_id (snd (create_from_openscad world_compile_error cube fresh)))"
    by (simp add: plain_id_def pipeline_defs run_defs world_defs demo_defs lit_def)
  have h3: "plain_id (doc_id (snd (create_from_openscad world_upload_down cube fresh)))"
    by (simp add: plain_id_def pipeline_defs run_defs world_defs demo_defs lit_def)
  from h1 h2 h3 failures_become_outcomes [OF h1 h2] failures_become_outcomes [OF h1 h3]
  show ?thesis by blast
qed

text \<open>
  The claim as stated fails at the validation, which it lists: for a request without
  source the \<open>HTTPException\<close> is raised before the \<open>try\<close> block and leaves
  \<open>create_from_openscad\<close>; the caller gets no record. The other exception that can
  leave the function is raised inside the \<open>except\<close> handler, when the \<open>id\<close> captured is
  not a string (here a list) and the response model rejects it.
\<close>

theorem validation_escapes_counterexample:
  "fst (create_from_openscad world_ok no_source fresh) =
     Inl (HTTPException 400 (lit ''openscad_code is required'')) \<and>
   fst (create_from_openscad world_list_id cube fresh) = Inl ValidationError"
proof -
  have 1: "fst (create_from_openscad world_ok no_source fresh) =
     Inl (HTTPException 400 (lit ''openscad_code is required''))"
    by (simp add: create_from_openscad_def no_source_def)
  have 2: "fst (create_from_openscad world_list_id cube fresh) = Inl ValidationError"
    by (simp add: pipeline_defs run_defs world_defs demo_defs lit_def)
  from 1 2 show ?thesis by blast
qed

section \<open>C10: the fields of a returned record\<close>

text \<open>
  Claim C10, as the code has it. Let \<open>create_from_openscad\<close> return the record \<open>r\<close>. If
  \<open>success\<close> is true, then \<open>docName\<close>, \<open>url\<close> and \<open>message\<close> are populated and \<open>error\<close>
  is absent, and \<open>docId\<close> is populated unless the id captured from the remote API is
  \<open>null\<close>. If \<open>success\<close> is false, then \<open>error\<close> is populated and \<open>docId\<close>, \<open>docName\<close>,
  \<open>url\<close> and \<open>message\<close> are absent. (Both kinds of success have \<open>success\<close> true and
  \<open>error\<close> absent, so these two fields do not tell them apart.)
\<close>

theorem outcome_record_shape:
  assumes "fst (create_from_openscad E p s) = Inr r"
  shows "(success r \<longrightarrow> docName r \<noteq> None \<and> url r \<noteq> None \<and> message r \<noteq> None \<and> error r = None \<and>
            (doc_id (snd (create_from_openscad E p s)) \<noteq> JNull \<longrightarrow> docId r \<noteq> None)) \<and>
         (\<not> success r \<longrightarrow> error r \<noteq> None \<and> docId r = None \<and> docName r = None \<and> url r = None \<and>
            message r = None)"
proof -
  from assms have "create_from_openscad E p s = (Inr r, snd (create_from_openscad E p s))"
    by (metis prod.collapse)
  then show ?thesis by (rule outcome_shape)
qed

text \<open>The full success on the cube, and the failure of the compiler on it.\<close>

theorem outcome_record_shape_witness:
  "(\<exists>r. fst (create_from_openscad world_ok cube fresh) = Inr r \<and> success r \<and>
        docId r \<noteq> None \<and> docName r \<noteq> None \<and> url r \<noteq> None \<and> message r \<noteq> None \<and>
        error r = None) \<and>
   (\<exists>r. fst (create_from_openscad world_compile_error cube fresh) = Inr r \<and> \<not> success r \<and>
        error r \<noteq> None \<and> docId r = None \<and> docName r = None \<and> url r = None \<and>
        message r = None)"
proof -
  obtain r1 where h1: "fst (create_from_openscad world_ok cube fresh) = Inr r1"
    and s1: "success r1"
    by (simp add: pipeline_defs run_defs world_defs demo_defs lit_def)
  have d1: "doc_id (snd (create_from_openscad world_ok cube fresh)) \<noteq> JNull"
    by (simp add: pipeline_defs run_defs world_defs demo_defs lit_def)
  obtain r2 where h2: "fst (create_from_openscad world_compile_error cube fresh) = Inr r2"
    and s2: "\<not> success r2"
    by (simp add: pipeline_defs run_defs world_defs demo_defs lit_def)
  from outcome_record_shape [OF h1] s1 d1
  have 1: "docId r1 \<noteq> None \<and> docName r1 \<noteq> None \<and> url r1 \<noteq> None \<and> message r1 \<noteq> None \<and>
           error r1 = None"
    by blast
  from outcome_record_shape [OF h2] s2
  have 2: "error r2 \<noteq> None \<and> docId r2 = None \<and> docName r2 = None \<and> url r2 = None \<and>
           message r2 = None"
    by blast
  from h1 s1 1 h2 s2 2 show ?thesis by blast
qed

text \<open>
  The claim as stated fails when the remote API answers the creation with \<open>"id": null\<close>
  and the later calls succeed: the record has \<open>success\<close> true and no \<open>docId\<close>.
\<close>

theorem null_document_id_counterexample:
  "fst (create_from_openscad world_null_id cube fresh) =
     Inr \<lparr>success = True, docId = None, docName = Some (lit ''Cube''),
          url = Some (lit ''https://cad.onshape.com/documents/None''),
          message = Some (success_message world_null_id (lit ''Cube'') JNull),
          error = None\<rparr>"
  by (simp add: pipeline_defs run_defs world_defs demo_defs lit_def)

end
